theory Spec2Isabelle
  imports Complex_Main
begin

section \<open>Exceptions and results\<close>

text \<open>
  The source is Python (\<^verbatim>\<open>src/game/common.py\<close>). An exception is a value of the
  datatype \<open>error\<close>, one constructor for each exception class the modelled code can
  raise; the message of an exception is not modelled. A function that can raise and
  returns a value has the result type \<open>error + 'a\<close>, with \<open>Inl\<close> for the exception.
\<close>

datatype error =
  ValueError | AssertionError | KeyError | TypeError | AttributeError | OverflowError

definition and_then :: "error + 'a \<Rightarrow> ('a \<Rightarrow> error + 'b) \<Rightarrow> error + 'b" where
  "and_then r f = (case r of Inl e \<Rightarrow> Inl e | Inr v \<Rightarrow> f v)"

section \<open>Stats\<close>

text \<open>
  \<^verbatim>\<open>class Stats(NamedTuple)\<close>: eight fields annotated \<^verbatim>\<open>int\<close>, each with the default
  \<^verbatim>\<open>None\<close>. A field is an \<open>int option\<close>; \<open>None\<close> is Python's \<^verbatim>\<open>None\<close>.
\<close>

record stats =
  max_health :: "int option"
  max_stamina :: "int option"
  max_mana :: "int option"
  strength :: "int option"
  agility :: "int option"
  acumen :: "int option"
  armor :: "int option"
  magical_resistance :: "int option"

text \<open>Iterating over a \<^verbatim>\<open>Stats\<close> tuple yields its fields in declaration order.\<close>

definition stats_tuple :: "stats \<Rightarrow> int option list" where
  "stats_tuple s =
     [max_health s, max_stamina s, max_mana s, strength s, agility s, acumen s, armor s,
      magical_resistance s]"

text \<open>
  \<^verbatim>\<open>Stats(*args)\<close>: positional arguments fill the fields in order, a field without
  an argument takes its default \<^verbatim>\<open>None\<close>, and more than eight arguments raise
  \<^verbatim>\<open>TypeError\<close>.
\<close>

definition positional :: "int option list \<Rightarrow> nat \<Rightarrow> int option" where
  "positional args i = (if i < length args then args ! i else None)"

definition Stats_star :: "int option list \<Rightarrow> error + stats" where
  "Stats_star args =
     (if 8 < length args then Inl TypeError
      else Inr \<lparr>max_health = positional args 0, max_stamina = positional args 1,
                max_mana = positional args 2, strength = positional args 3,
                agility = positional args 4, acumen = positional args 5,
                armor = positional args 6, magical_resistance = positional args 7\<rparr>)"

text \<open>\<^verbatim>\<open>Stats()\<close>, every field unset.\<close>

definition Stats_unset :: stats where
  "Stats_unset =
     \<lparr>max_health = None, max_stamina = None, max_mana = None, strength = None,
      agility = None, acumen = None, armor = None, magical_resistance = None\<rparr>"

text \<open>
  \<^verbatim>\<open>Stats.modify\<close>: the loop over \<^verbatim>\<open>zip(self, changes)\<close> appends to \<^verbatim>\<open>new_stats\<close>
  the old value where the new one \<^verbatim>\<open>is None\<close> and the new value otherwise; the result
  is \<^verbatim>\<open>Stats(*new_stats)\<close>. The arguments are values, so \<^verbatim>\<open>self\<close> is not changed.
\<close>

fun modify_loop :: "(int option \<times> int option) list \<Rightarrow> int option list \<Rightarrow> int option list" where
  "modify_loop [] new_stats = new_stats"
| "modify_loop ((old, new) # rest) new_stats =
     (if new = None then modify_loop rest (new_stats @ [old])
      else modify_loop rest (new_stats @ [new]))"

definition Stats_modify :: "stats \<Rightarrow> stats \<Rightarrow> error + stats" where
  "Stats_modify self changes =
     Stats_star (modify_loop (zip (stats_tuple self) (stats_tuple changes)) [])"

text \<open>The value a single field takes in the loop of \<^verbatim>\<open>modify\<close>.\<close>

definition overridden :: "'a option \<Rightarrow> 'a option \<Rightarrow> 'a option" where
  "overridden old new = (case new of None \<Rightarrow> old | Some v \<Rightarrow> Some v)"

section \<open>Actions and items\<close>

text \<open>
  \<^verbatim>\<open>class Action(NamedTuple)\<close> and \<^verbatim>\<open>class Item(NamedTuple)\<close>. A \<^verbatim>\<open>dict\<close> of
  effects is an association list, a \<^verbatim>\<open>tuple\<close> is a list, and the \<^verbatim>\<open>UUID\<close> is a string,
  as in the source's \<^verbatim>\<open>Inventory._test\<close>. Python compares a named tuple by its
  fields, which is the equality of the record; which items can be hashed is settled
  with the inventory, where they are used as keys.
\<close>

type_synonym effects = "(string \<times> string) list"

record action =
  name :: string
  action_type :: string
  description :: string
  base_damage :: int
  damage_type :: string
  effects :: effects

record item =
  name :: string
  description :: string
  tags :: "string list"
  weight :: int
  max_durability :: int
  durability :: int
  stat_bonus :: stats
  actions :: "action list"
  uuid :: string

section \<open>Inventory\<close>

text \<open>
  \<^verbatim>\<open>class Inventory(NamedTuple)\<close>. \<^verbatim>\<open>equipment\<close> is a \<^verbatim>\<open>dict\<close> from a slot name to an
  item or \<^verbatim>\<open>None\<close>: a map whose values are \<open>item option\<close>, so that
  \<open>equipment self slot = None\<close> is a missing key (\<^verbatim>\<open>KeyError\<close> on lookup) and
  \<open>Some None\<close> an empty slot. \<^verbatim>\<open>backpack\<close> is a \<^verbatim>\<open>Counter\<close>: reading a missing key
  gives 0, so it is a total function to \<open>int\<close>.

  A \<^verbatim>\<open>Counter\<close> hashes its key, on a read as on a write. The hash of a named tuple
  hashes every field: strings, integers, \<^verbatim>\<open>None\<close>, a tuple of strings and a \<^verbatim>\<open>Stats\<close>
  have one, a \<^verbatim>\<open>dict\<close> has none, and every \<^verbatim>\<open>Action\<close> holds the \<^verbatim>\<open>dict\<close> \<^verbatim>\<open>effects\<close>. So
  an item is hashable exactly when its tuple of actions is empty, and
  \<^verbatim>\<open>self.backpack[item]\<close> raises \<^verbatim>\<open>TypeError\<close> for any other item. A \<^verbatim>\<open>Counter\<close> therefore
  holds no count for an unhashable item: in an inventory the program can build,
  \<open>backpack self item = 0\<close> for every such item.

  The methods mutate the two containers in place. Each one is modelled as a function
  from the inventory before the call to a pair: the exception raised (\<open>None\<close> when the
  call returns) and the inventory after the call, which for a call that raises is the
  state the object is left in at the \<^verbatim>\<open>raise\<close>.
\<close>

definition hashable :: "item \<Rightarrow> bool" where
  "hashable item = (item.actions item = [])"

record inventory =
  equipment :: "string \<rightharpoonup> item option"
  backpack :: "item \<Rightarrow> int"

definition slots :: "string list" where
  "slots = [''mainhand'', ''offhand'', ''head'', ''body'', ''feet'']"

definition Inventory_new :: inventory where
  "Inventory_new =
     \<lparr>equipment = fold (\<lambda>slot equipment. equipment(slot \<mapsto> None)) slots Map.empty,
      backpack = (\<lambda>_. 0)\<rparr>"

definition Inventory_add :: "inventory \<Rightarrow> item \<Rightarrow> int \<Rightarrow> error option \<times> inventory" where
  "Inventory_add self item count =
     (if \<not> 0 \<le> count then (Some AssertionError, self)
      else if \<not> hashable item then (Some TypeError, self)
      else (None, self\<lparr>backpack := (backpack self)(item := backpack self item + count)\<rparr>))"

definition Inventory_remove :: "inventory \<Rightarrow> item \<Rightarrow> int \<Rightarrow> error option \<times> inventory" where
  "Inventory_remove self item count =
     (if \<not> 0 \<le> count then (Some AssertionError, self)
      else if \<not> hashable item then (Some TypeError, self)
      else if backpack self item < count then (Some ValueError, self)
      else (None, self\<lparr>backpack := (backpack self)(item := backpack self item - count)\<rparr>))"

definition Inventory_unequip :: "inventory \<Rightarrow> string \<Rightarrow> error option \<times> inventory" where
  "Inventory_unequip self slot =
     (if slot \<notin> set slots then (Some ValueError, self)
      else case equipment self slot of
        None \<Rightarrow> (Some KeyError, self)
      | Some None \<Rightarrow> (Some ValueError, self)
      | Some (Some item) \<Rightarrow>
          Inventory_add (self\<lparr>equipment := (equipment self)(slot \<mapsto> None)\<rparr>) item 1)"

definition Inventory_equip :: "inventory \<Rightarrow> string \<Rightarrow> item \<Rightarrow> error option \<times> inventory" where
  "Inventory_equip self slot item =
     (if ''equippable'' \<notin> set (tags item) then (Some ValueError, self)
      else if slot \<notin> set slots then (Some ValueError, self)
      else case equipment self slot of
        None \<Rightarrow> (Some KeyError, self)
      | Some occupant \<Rightarrow>
          (case (if occupant \<noteq> None then Inventory_unequip self slot else (None, self)) of
             (Some e, unequipped) \<Rightarrow> (Some e, unequipped)
           | (None, unequipped) \<Rightarrow>
               (case Inventory_remove unequipped item 1 of
                  (Some e, removed) \<Rightarrow> (Some e, removed)
                | (None, removed) \<Rightarrow>
                    (None, removed\<lparr>equipment := (equipment removed)(slot \<mapsto> Some item)\<rparr>))))"

definition Inventory_use :: "inventory \<Rightarrow> item \<Rightarrow> error option \<times> inventory" where
  "Inventory_use self item =
     (if \<not> hashable item then (Some TypeError, self)
      else if 0 < backpack self item then Inventory_remove self item 1
      else (Some ValueError, self))"

text \<open>
  A call of one of the five mutating methods, with the count written out where the
  source has the default \<^verbatim>\<open>count=1\<close>, and the inventory a sequence of calls leaves
  behind, starting from \<^verbatim>\<open>Inventory.new()\<close> and going on after a call that raised.
\<close>

datatype call =
  Add item int | Remove item int | Equip string item | Unequip string | Use item

fun perform :: "inventory \<Rightarrow> call \<Rightarrow> error option \<times> inventory" where
  "perform self (Add item count) = Inventory_add self item count"
| "perform self (Remove item count) = Inventory_remove self item count"
| "perform self (Equip slot item) = Inventory_equip self slot item"
| "perform self (Unequip slot) = Inventory_unequip self slot"
| "perform self (Use item) = Inventory_use self item"

definition after_calls :: "call list \<Rightarrow> inventory" where
  "after_calls calls = foldl (\<lambda>self c. snd (perform self c)) Inventory_new calls"

text \<open>The items of the source's \<^verbatim>\<open>Inventory._test\<close>.\<close>

definition item1 :: item where
  "item1 = \<lparr>item.name = ''item1'', item.description = ''lorem ipsum'',
             tags = [''item'', ''equippable''], weight = 1, max_durability = 100,
             durability = 100, stat_bonus = Stats_unset, item.actions = [], uuid = ''UUID''\<rparr>"

definition item2 :: item where
  "item2 = \<lparr>item.name = ''item2'', item.description = ''Poland'',
             tags = [''item''], weight = 1, max_durability = 100,
             durability = 100, stat_bonus = Stats_unset, item.actions = [], uuid = ''UUID''\<rparr>"

definition item3 :: item where
  "item3 = \<lparr>item.name = ''item3'', item.description = ''Ave Caesar'',
             tags = [''item'', ''equippable''], weight = 1, max_durability = 100,
             durability = 100, stat_bonus = Stats_unset, item.actions = [], uuid = ''UUID''\<rparr>"

text \<open>
  \<^verbatim>\<open>ti = Inventory.new(); ti.add(item1); ti.equip("head", item1)\<close>: item1 worn on the
  head and an empty backpack. \<open>head_item1_spare\<close> is the same after one more
  \<^verbatim>\<open>ti.add(item1)\<close>, and \<open>head_item1_two_item3\<close> after \<^verbatim>\<open>ti.add(item3, 2)\<close> instead
  (the state of \<^verbatim>\<open>_test\<close> before its second \<^verbatim>\<open>equip\<close>).
\<close>

definition head_item1 :: inventory where
  "head_item1 = after_calls [Add item1 1, Equip ''head'' item1]"

definition head_item1_spare :: inventory where
  "head_item1_spare = after_calls [Add item1 1, Equip ''head'' item1, Add item1 1]"

definition head_item1_two_item3 :: inventory where
  "head_item1_two_item3 = after_calls [Add item1 1, Equip ''head'' item1, Add item3 2]"

text \<open>
  An item that holds an action, and so cannot be hashed, and an inventory built with the
  constructor \<^verbatim>\<open>Inventory(equipment, backpack)\<close> that wears it on the head and has one
  item3 in the backpack.
\<close>

definition slash :: action where
  "slash = \<lparr>action.name = ''slash'', action_type = ''physical'',
             action.description = ''a cut'', base_damage = 3,
             action.damage_type = ''physical'', action.effects = []\<rparr>"

definition sword :: item where
  "sword = \<lparr>item.name = ''sword'', item.description = ''sharp'',
             tags = [''item'', ''equippable''], weight = 2, max_durability = 100,
             durability = 100, stat_bonus = Stats_unset, item.actions = [slash],
             uuid = ''UUID''\<rparr>"

definition head_sword :: inventory where
  "head_sword =
     \<lparr>equipment = (equipment Inventory_new)(''head'' \<mapsto> Some sword),
      backpack = (\<lambda>_. 0)(item3 := 1)\<rparr>"

section \<open>Damage instances and characters\<close>

text \<open>
  \<^verbatim>\<open>DamageInstance.damage\<close> is a Python \<^verbatim>\<open>float\<close>. A finite float is a rational number
  (the model admits every rational, of which the floats are the dyadic ones of bounded
  size), and besides these there are the two infinities and NaN. \<^verbatim>\<open>int(x)\<close> is exact
  on a finite float: it drops the fractional part, rounding toward zero; it raises
  \<^verbatim>\<open>OverflowError\<close> on an infinity and \<^verbatim>\<open>ValueError\<close> on NaN.
\<close>

datatype pyfloat = Finite rat | PosInf | NegInf | NaN

fun int_of_float :: "pyfloat \<Rightarrow> error + int" where
  "int_of_float (Finite x) = Inr (if 0 \<le> x then \<lfloor>x\<rfloor> else \<lceil>x\<rceil>)"
| "int_of_float PosInf = Inl OverflowError"
| "int_of_float NegInf = Inl OverflowError"
| "int_of_float NaN = Inl ValueError"

record damage_instance =
  damage :: pyfloat
  damage_type :: string
  effects :: effects

text \<open>
  \<^verbatim>\<open>class Character(NamedTuple)\<close>: thirteen fields, each with the default \<^verbatim>\<open>None\<close>, so
  each is an option. \<^verbatim>\<open>bonuses\<close> is a \<^verbatim>\<open>dict\<close> from a UUID to a stat sheet, kept as
  an association list in insertion order, the order of \<^verbatim>\<open>values()\<close>. The inventory is
  held by value: no property below depends on two snapshots sharing one inventory object.
\<close>

record character =
  name :: "string option"
  sprite_sheet :: "(string \<times> string) list option"
  is_player :: "bool option"
  is_alive :: "bool option"
  base :: "stats option"
  bonuses :: "(string \<times> stats) list option"
  current :: "stats option"
  health :: "int option"
  stamina :: "int option"
  mana :: "int option"
  inventory :: "inventory option"
  actions :: "action list option"
  effects :: "effects option"

text \<open>\<^verbatim>\<open>Character()\<close>, every field unset.\<close>

definition Character_unset :: character where
  "Character_unset =
     \<lparr>character.name = None, sprite_sheet = None, is_player = None, is_alive = None,
      base = None, bonuses = None, current = None, health = None, stamina = None,
      mana = None, inventory = None, character.actions = None, character.effects = None\<rparr>"

definition Character_new ::
  "string \<Rightarrow> (string \<times> string) list \<Rightarrow> bool \<Rightarrow> stats \<Rightarrow> action list \<Rightarrow> effects \<Rightarrow> character" where
  "Character_new new_name new_sprite_sheet new_is_player base_stats new_actions initial_effects =
     \<lparr>character.name = Some new_name, sprite_sheet = Some new_sprite_sheet,
      is_player = Some new_is_player, is_alive = Some True,
      base = Some base_stats, bonuses = Some [], current = Some base_stats,
      health = max_health base_stats, stamina = max_stamina base_stats,
      mana = max_mana base_stats,
      inventory = Some Inventory_new, character.actions = Some new_actions,
      character.effects = Some initial_effects\<rparr>"

text \<open>
  \<^verbatim>\<open>Character.modify\<close> is the loop of \<^verbatim>\<open>Stats.modify\<close> over the thirteen fields, which
  have different types: it is written out field by field, each field taking the value
  \<open>overridden old new\<close> that the loop appends for it. \<^verbatim>\<open>Character(*new_char)\<close>
  receives exactly thirteen arguments and does not raise.
\<close>

definition Character_modify :: "character \<Rightarrow> character \<Rightarrow> character" where
  "Character_modify self changes =
     \<lparr>character.name = overridden (character.name self) (character.name changes),
      sprite_sheet = overridden (sprite_sheet self) (sprite_sheet changes),
      is_player = overridden (is_player self) (is_player changes),
      is_alive = overridden (is_alive self) (is_alive changes),
      base = overridden (base self) (base changes),
      bonuses = overridden (bonuses self) (bonuses changes),
      current = overridden (current self) (current changes),
      health = overridden (health self) (health changes),
      stamina = overridden (stamina self) (stamina changes),
      mana = overridden (mana self) (mana changes),
      inventory = overridden (inventory self) (inventory changes),
      character.actions = overridden (character.actions self) (character.actions changes),
      character.effects = overridden (character.effects self) (character.effects changes)\<rparr>"

text \<open>
  \<^verbatim>\<open>Character.hit\<close>. The statements of the source in order: \<^verbatim>\<open>int(attack.damage)\<close>;
  \<^verbatim>\<open>self.health - damage_taken\<close>, a \<^verbatim>\<open>TypeError\<close> when the health is \<^verbatim>\<open>None\<close>; the
  first \<^verbatim>\<open>if\<close>, which sets the health to 0 and \<^verbatim>\<open>is_alive\<close> to \<^verbatim>\<open>False\<close>; the second
  \<^verbatim>\<open>if\<close>, an independent one (not an \<^verbatim>\<open>elif\<close>), where \<^verbatim>\<open>self.current.max_health\<close> is
  an \<^verbatim>\<open>AttributeError\<close> when \<^verbatim>\<open>current\<close> is \<^verbatim>\<open>None\<close> and the comparison a \<^verbatim>\<open>TypeError\<close>
  when \<^verbatim>\<open>max_health\<close> is \<^verbatim>\<open>None\<close>; and the call of \<^verbatim>\<open>modify\<close> with
  \<^verbatim>\<open>Character(health=health, is_alive=is_alive)\<close>.
\<close>

definition Character_hit :: "character \<Rightarrow> damage_instance \<Rightarrow> error + (character \<times> int)" where
  "Character_hit self attack =
     (case int_of_float (damage attack) of
        Inl e \<Rightarrow> Inl e
      | Inr damage_taken \<Rightarrow>
          (case health self of
             None \<Rightarrow> Inl TypeError
           | Some self_health \<Rightarrow>
               (let health0 = self_health - damage_taken;
                    is_alive0 = is_alive self;
                    (health1, is_alive1) =
                      (if health0 \<le> 0 then (0, Some False) else (health0, is_alive0))
                in case current self of
                     None \<Rightarrow> Inl AttributeError
                   | Some cur \<Rightarrow>
                       (case max_health cur of
                          None \<Rightarrow> Inl TypeError
                        | Some cap \<Rightarrow>
                            (let health2 = (if cap < health1 then cap else health1)
                             in Inr (Character_modify self
                                       (Character_unset\<lparr>health := Some health2,
                                                         is_alive := is_alive1\<rparr>),
                                     damage_taken))))))"

text \<open>
  \<^verbatim>\<open>Character.update_stats\<close> starts with \<^verbatim>\<open>enumerate(self.BASE)\<close>. Attribute lookup is
  case-sensitive. \<open>Character_stats_attr\<close> is the lookup of an attribute that holds a
  stat sheet: the two fields that do are \<^verbatim>\<open>base\<close> and \<^verbatim>\<open>current\<close>, and a name that is
  neither a field nor a method of the class, such as \<^verbatim>\<open>BASE\<close>, raises
  \<^verbatim>\<open>AttributeError\<close>. (The names of the other eleven fields and of the methods are not
  looked up through this function.)
\<close>

definition Character_stats_attr :: "character \<Rightarrow> string \<Rightarrow> error + stats option" where
  "Character_stats_attr self attr =
     (if attr = ''base'' then Inr (base self)
      else if attr = ''current'' then Inr (current self)
      else Inl AttributeError)"

text \<open>
  The body of \<^verbatim>\<open>update_stats\<close>, given the sheet that is enumerated. The inner loop adds
  \<^verbatim>\<open>bonus[i]\<close> to \<^verbatim>\<open>stat\<close> for every bonus; \<^verbatim>\<open>+=\<close> with \<^verbatim>\<open>None\<close> on either side raises
  \<^verbatim>\<open>TypeError\<close>. The outer loop appends the sum for each field. Enumerating \<^verbatim>\<open>None\<close> is
  a \<^verbatim>\<open>TypeError\<close>, and \<^verbatim>\<open>self.bonuses.values()\<close> an \<^verbatim>\<open>AttributeError\<close> when \<^verbatim>\<open>bonuses\<close> is
  \<^verbatim>\<open>None\<close>.
\<close>

fun add_bonuses :: "int option \<Rightarrow> nat \<Rightarrow> stats list \<Rightarrow> error + int option" where
  "add_bonuses stat i [] = Inr stat"
| "add_bonuses stat i (bonus # rest) =
     (case (stat, stats_tuple bonus ! i) of
        (Some a, Some b) \<Rightarrow> add_bonuses (Some (a + b)) i rest
      | _ \<Rightarrow> Inl TypeError)"

fun update_stats_loop ::
  "(nat \<times> int option) list \<Rightarrow> stats list \<Rightarrow> int option list \<Rightarrow> error + int option list" where
  "update_stats_loop [] values new_stats = Inr new_stats"
| "update_stats_loop ((i, stat) # rest) values new_stats =
     (case add_bonuses stat i values of
        Inl e \<Rightarrow> Inl e
      | Inr summed \<Rightarrow> update_stats_loop rest values (new_stats @ [summed]))"

definition update_stats_body :: "stats option \<Rightarrow> (string \<times> stats) list option \<Rightarrow> error + stats" where
  "update_stats_body sheet self_bonuses =
     (case sheet of
        None \<Rightarrow> Inl TypeError
      | Some s \<Rightarrow>
          (case self_bonuses of
             None \<Rightarrow> Inl AttributeError
           | Some bs \<Rightarrow>
               and_then (update_stats_loop (enumerate 0 (stats_tuple s)) (map snd bs) [])
                 Stats_star))"

definition Character_update_stats :: "character \<Rightarrow> error + stats" where
  "Character_update_stats self =
     and_then (Character_stats_attr self ''BASE'')
       (\<lambda>sheet. update_stats_body sheet (bonuses self))"

text \<open>
  The character of the source's \<^verbatim>\<open>Character._test\<close>, with an empty sprite sheet for the
  argument the test leaves out.
\<close>

definition john_halo :: character where
  "john_halo =
     Character_new ''John Halo'' [] True
       \<lparr>max_health = Some 8, max_stamina = Some 16, max_mana = Some 4, strength = Some 8,
        agility = Some 6, acumen = Some 4, armor = Some 2, magical_resistance = Some 4\<rparr>
       [] []"

text \<open>
  Characters and damage instances used as concrete inputs: \<open>wounded\<close> has health 10
  of at most 20, \<open>fallen\<close> is \<open>wounded\<close> at health 0 and no longer alive,
  \<open>cursed\<close> is created by \<^verbatim>\<open>Character.new\<close> from a sheet whose \<^verbatim>\<open>max_health\<close> is -5;
  \<open>healing\<close> is a damage of -2.5 and \<open>blow d\<close> an integral damage of \<open>d\<close>.
\<close>

definition wounded :: character where
  "wounded =
     Character_modify
       (Character_new ''target'' [] False (Stats_unset\<lparr>max_health := Some 20\<rparr>) [] [])
       (Character_unset\<lparr>health := Some 10\<rparr>)"

definition fallen :: character where
  "fallen =
     Character_modify wounded (Character_unset\<lparr>health := Some 0, is_alive := Some False\<rparr>)"

definition cursed :: character where
  "cursed =
     Character_new ''cursed'' [] False (Stats_unset\<lparr>max_health := Some (- 5)\<rparr>) [] []"

definition healing :: damage_instance where
  "healing =
     \<lparr>damage = Finite (- 5 / 2), damage_type = ''magical'', damage_instance.effects = []\<rparr>"

definition blow :: "int \<Rightarrow> damage_instance" where
  "blow d =
     \<lparr>damage = Finite (of_int d), damage_type = ''physical'', damage_instance.effects = []\<rparr>"

section \<open>Properties of Stats.modify\<close>

lemma modify_loop_map:
  "modify_loop ps acc = acc @ map (\<lambda>(old, new). overridden old new) ps"
  by (induction ps acc rule: modify_loop.induct) (auto simp: overridden_def)

lemma Stats_modify_fields:
  "Stats_modify s c =
     Inr \<lparr>max_health = overridden (max_health s) (max_health c),
          max_stamina = overridden (max_stamina s) (max_stamina c),
          max_mana = overridden (max_mana s) (max_mana c),
          strength = overridden (strength s) (strength c),
          agility = overridden (agility s) (agility c),
          acumen = overridden (acumen s) (acumen c),
          armor = overridden (armor s) (armor c),
          magical_resistance = overridden (magical_resistance s) (magical_resistance c)\<rparr>"
  by (simp add: Stats_modify_def Stats_star_def stats_tuple_def modify_loop_map positional_def)

lemma overridden_None [simp]: "overridden old None = old"
  by (simp add: overridden_def)

lemma overridden_assoc:
  "overridden (overridden a b) c = overridden a (overridden b c)"
  by (simp add: overridden_def split: option.splits)

text \<open>
  C6. \<^verbatim>\<open>s.modify(c)\<close> never raises; each field of the sheet it returns is the field of
  \<open>c\<close> when that field is set in \<open>c\<close> and the field of \<open>s\<close> otherwise; and
  \<^verbatim>\<open>s.modify(Stats())\<close>, where every field of the changes is unset, is \<open>s\<close>. The
  model passes \<open>s\<close> by value, so it is not mutated.
\<close>

theorem Stats_modify_override:
  "(\<exists>r. Stats_modify s c = Inr r
      \<and> max_health r = (case max_health c of None \<Rightarrow> max_health s | Some v \<Rightarrow> Some v)
      \<and> max_stamina r = (case max_stamina c of None \<Rightarrow> max_stamina s | Some v \<Rightarrow> Some v)
      \<and> max_mana r = (case max_mana c of None \<Rightarrow> max_mana s | Some v \<Rightarrow> Some v)
      \<and> strength r = (case strength c of None \<Rightarrow> strength s | Some v \<Rightarrow> Some v)
      \<and> agility r = (case agility c of None \<Rightarrow> agility s | Some v \<Rightarrow> Some v)
      \<and> acumen r = (case acumen c of None \<Rightarrow> acumen s | Some v \<Rightarrow> Some v)
      \<and> armor r = (case armor c of None \<Rightarrow> armor s | Some v \<Rightarrow> Some v)
      \<and> magical_resistance r =
          (case magical_resistance c of None \<Rightarrow> magical_resistance s | Some v \<Rightarrow> Some v))
   \<and> Stats_modify s Stats_unset = Inr s"
  by (simp add: Stats_modify_fields overridden_def Stats_unset_def)

text \<open>
  C7. \<^verbatim>\<open>modify\<close> is associative: \<^verbatim>\<open>a.modify(b).modify(c)\<close> is
  \<^verbatim>\<open>a.modify(b.modify(c))\<close>.
\<close>

theorem Stats_modify_assoc:
  "and_then (Stats_modify a b) (\<lambda>ab. Stats_modify ab c)
   = and_then (Stats_modify b c) (\<lambda>bc. Stats_modify a bc)"
  by (simp add: and_then_def Stats_modify_fields overridden_assoc)

section \<open>Properties of the inventory\<close>

lemma slot_head: "''head'' \<in> set slots"
  by (simp add: slots_def)

lemma items_distinct: "item1 \<noteq> item3" "item3 \<noteq> item1" "item1 \<noteq> item2"
  by (simp_all add: item1_def item2_def item3_def)

lemma item_tags: "''equippable'' \<in> set (tags item1)" "''equippable'' \<in> set (tags item3)"
  by (simp_all add: item1_def item3_def)

lemma items_hashable: "hashable item1" "hashable item2" "hashable item3" "\<not> hashable sword"
  by (simp_all add: hashable_def item1_def item2_def item3_def sword_def)

lemma head_item1_eq:
  "head_item1 =
     \<lparr>equipment = (equipment Inventory_new)(''head'' \<mapsto> Some item1), backpack = (\<lambda>_. 0)\<rparr>"
  by (simp add: head_item1_def after_calls_def Inventory_add_def Inventory_equip_def
      Inventory_remove_def Inventory_new_def slots_def item_tags items_hashable fun_upd_idem)

lemma head_item1_spare_eq:
  "head_item1_spare =
     \<lparr>equipment = (equipment Inventory_new)(''head'' \<mapsto> Some item1),
      backpack = (\<lambda>_. 0)(item1 := 1)\<rparr>"
  by (simp add: head_item1_spare_def after_calls_def Inventory_add_def Inventory_equip_def
      Inventory_remove_def Inventory_new_def slots_def item_tags items_hashable fun_upd_idem)

lemma head_item1_two_item3_eq:
  "head_item1_two_item3 =
     \<lparr>equipment = (equipment Inventory_new)(''head'' \<mapsto> Some item1),
      backpack = (\<lambda>_. 0)(item3 := 2)\<rparr>"
  by (simp add: head_item1_two_item3_def after_calls_def Inventory_add_def Inventory_equip_def
      Inventory_remove_def Inventory_new_def slots_def item_tags items_hashable fun_upd_idem)

subsection \<open>Calls that raise\<close>

text \<open>
  \<^verbatim>\<open>remove\<close> checks before it acts: a call that raises leaves the inventory as it was.
  So does \<^verbatim>\<open>unequip\<close> for the errors of its two guards, and \<^verbatim>\<open>equip\<close> when the slot
  holds no item. \<^verbatim>\<open>unequip\<close> of an occupant that cannot be hashed is different: the slot
  is cleared before \<^verbatim>\<open>add\<close> raises \<^verbatim>\<open>TypeError\<close>.
\<close>

lemma Inventory_remove_raises_unchanged:
  "fst (Inventory_remove self item count) \<noteq> None \<Longrightarrow>
   snd (Inventory_remove self item count) = self"
  by (simp add: Inventory_remove_def split: if_splits)

lemma Inventory_unequip_raises_unchanged:
  "fst (Inventory_unequip self slot) \<noteq> None \<Longrightarrow>
   fst (Inventory_unequip self slot) \<noteq> Some TypeError \<Longrightarrow>
   snd (Inventory_unequip self slot) = self"
  by (simp add: Inventory_unequip_def Inventory_add_def split: if_splits option.splits)

lemma Inventory_unequip_unhashable:
  "slot \<in> set slots \<Longrightarrow> equipment self slot = Some (Some A) \<Longrightarrow> \<not> hashable A \<Longrightarrow>
   Inventory_unequip self slot
     = (Some TypeError, self\<lparr>equipment := (equipment self)(slot \<mapsto> None)\<rparr>)"
  by (simp add: Inventory_unequip_def Inventory_add_def)

lemma Inventory_equip_raises_unchanged:
  "fst (Inventory_equip self slot item) \<noteq> None \<Longrightarrow>
   equipment self slot = None \<or> equipment self slot = Some None \<Longrightarrow>
   snd (Inventory_equip self slot item) = self"
  by (auto simp add: Inventory_equip_def Inventory_remove_def
      split: if_splits option.splits prod.splits)

text \<open>
  C1. The claim: a call of \<^verbatim>\<open>equip\<close>, \<^verbatim>\<open>unequip\<close> or \<^verbatim>\<open>remove\<close> that raises leaves
  equipment and backpack as they were, in particular \<^verbatim>\<open>equip\<close> on an occupied slot with
  no unit of the item in the backpack. The code at that input: item1 is worn on the head,
  the backpack is empty, and \<^verbatim>\<open>equip("head", item3)\<close> raises \<^verbatim>\<open>ValueError\<close> from
  \<^verbatim>\<open>remove\<close> after \<^verbatim>\<open>unequip\<close> has run, so the head slot is left empty and the backpack
  holds one item1.
\<close>

theorem equip_raises_after_unequip:
  "equipment head_item1 ''head'' = Some (Some item1)
   \<and> backpack head_item1 item1 = 0
   \<and> backpack head_item1 item3 = 0
   \<and> fst (Inventory_equip head_item1 ''head'' item3) = Some ValueError
   \<and> equipment (snd (Inventory_equip head_item1 ''head'' item3)) ''head'' = Some None
   \<and> backpack (snd (Inventory_equip head_item1 ''head'' item3)) item1 = 1"
  by (simp add: head_item1_eq Inventory_equip_def Inventory_unequip_def Inventory_add_def
      Inventory_remove_def slot_head item_tags items_distinct items_hashable)

subsection \<open>Hot-swapping\<close>

text \<open>
  C8, as amended. When \<open>slot\<close>, one of the five slot names, is occupied by \<open>A\<close>, the
  backpack holds at least one unit of an equippable \<open>B\<close>, and both items are hashable
  (they hold no action), \<^verbatim>\<open>equip(slot, B)\<close> returns and \<^verbatim>\<open>equipment[slot]\<close> is \<open>B\<close>;
  when \<open>B\<close> is another item than \<open>A\<close>, the count of \<open>A\<close> is one greater and the
  count of \<open>B\<close> one less than before; when \<open>B\<close> is \<open>A\<close>, its count is the same as
  before.
\<close>

theorem equip_hot_swap:
  assumes "slot \<in> set slots"
    and "equipment self slot = Some (Some A)"
    and "hashable A"
    and "''equippable'' \<in> set (tags B)"
    and "hashable B"
    and "1 \<le> backpack self B"
  shows "fst (Inventory_equip self slot B) = None
    \<and> equipment (snd (Inventory_equip self slot B)) slot = Some (Some B)
    \<and> (A \<noteq> B \<longrightarrow>
          backpack (snd (Inventory_equip self slot B)) A = backpack self A + 1
        \<and> backpack (snd (Inventory_equip self slot B)) B = backpack self B - 1)
    \<and> (A = B \<longrightarrow> backpack (snd (Inventory_equip self slot B)) B = backpack self B)"
  using assms
  by (auto simp add: Inventory_equip_def Inventory_unequip_def Inventory_add_def
      Inventory_remove_def)

text \<open>
  The second \<^verbatim>\<open>equip\<close> of the source's \<^verbatim>\<open>_test\<close>: item1 on the head, two item3 in the
  backpack, \<^verbatim>\<open>equip("head", item3)\<close>.
\<close>

theorem equip_hot_swap_witness:
  "''head'' \<in> set slots \<and> equipment head_item1_two_item3 ''head'' = Some (Some item1)
   \<and> hashable item1
   \<and> ''equippable'' \<in> set (tags item3) \<and> hashable item3
   \<and> 1 \<le> backpack head_item1_two_item3 item3
   \<and> item1 \<noteq> item3
   \<and> fst (Inventory_equip head_item1_two_item3 ''head'' item3) = None
   \<and> equipment (snd (Inventory_equip head_item1_two_item3 ''head'' item3)) ''head''
       = Some (Some item3)
   \<and> backpack (snd (Inventory_equip head_item1_two_item3 ''head'' item3)) item1 = 1
   \<and> backpack (snd (Inventory_equip head_item1_two_item3 ''head'' item3)) item3 = 1"
proof -
  have h: "''head'' \<in> set slots" "equipment head_item1_two_item3 ''head'' = Some (Some item1)"
    "hashable item1" "''equippable'' \<in> set (tags item3)" "hashable item3"
    "1 \<le> backpack head_item1_two_item3 item3"
    by (simp_all add: slot_head item_tags items_hashable head_item1_two_item3_eq)
  have b: "backpack head_item1_two_item3 item1 = 0" "backpack head_item1_two_item3 item3 = 2"
    by (simp_all add: head_item1_two_item3_eq items_distinct)
  show ?thesis
    using h b equip_hot_swap [OF h] by (simp add: items_distinct)
qed

text \<open>
  C8 as stated fails when the item equipped is the item already in the slot: item1 on
  the head, one more item1 in the backpack, \<^verbatim>\<open>equip("head", item1)\<close>. The call returns
  and the count of item1 is neither one greater nor one less than before.
\<close>

theorem equip_same_item_counterexample:
  "''head'' \<in> set slots \<and> equipment head_item1_spare ''head'' = Some (Some item1)
   \<and> ''equippable'' \<in> set (tags item1) \<and> 1 \<le> backpack head_item1_spare item1
   \<and> fst (Inventory_equip head_item1_spare ''head'' item1) = None
   \<and> backpack (snd (Inventory_equip head_item1_spare ''head'' item1)) item1
       \<noteq> backpack head_item1_spare item1 + 1
   \<and> backpack (snd (Inventory_equip head_item1_spare ''head'' item1)) item1
       \<noteq> backpack head_item1_spare item1 - 1"
  by (simp add: head_item1_spare_eq Inventory_equip_def Inventory_unequip_def Inventory_add_def
      Inventory_remove_def slot_head item_tags items_hashable)

text \<open>
  Why the occupant has to be hashable: with the sword, which holds an action, on the head
  and one item3 in the backpack, \<^verbatim>\<open>equip("head", item3)\<close> raises \<^verbatim>\<open>TypeError\<close> from the
  \<^verbatim>\<open>add\<close> inside \<^verbatim>\<open>unequip\<close>, with the head slot already cleared and item3 still in the
  backpack.
\<close>

lemma equip_unhashable_occupant_raises:
  "equipment head_sword ''head'' = Some (Some sword)
   \<and> ''equippable'' \<in> set (tags item3) \<and> 1 \<le> backpack head_sword item3
   \<and> fst (Inventory_equip head_sword ''head'' item3) = Some TypeError
   \<and> equipment (snd (Inventory_equip head_sword ''head'' item3)) ''head'' = Some None
   \<and> backpack (snd (Inventory_equip head_sword ''head'' item3)) item3 = 1"
  by (simp add: head_sword_def Inventory_equip_def Inventory_unequip_def Inventory_add_def
      slot_head item_tags items_hashable)

subsection \<open>Counts are never negative\<close>

text \<open>
  The invariant of the backpack: no count is negative, and an item that cannot be hashed
  has the count 0. Every call keeps it, whether it returns or raises.
\<close>

lemma Inventory_add_backpack_inv:
  "\<forall>i. 0 \<le> backpack self i \<and> (hashable i \<or> backpack self i = 0) \<Longrightarrow>
   0 \<le> backpack (snd (Inventory_add self item count)) i
   \<and> (hashable i \<or> backpack (snd (Inventory_add self item count)) i = 0)"
  by (simp add: Inventory_add_def)

lemma Inventory_remove_backpack_inv:
  "\<forall>i. 0 \<le> backpack self i \<and> (hashable i \<or> backpack self i = 0) \<Longrightarrow>
   0 \<le> backpack (snd (Inventory_remove self item count)) i
   \<and> (hashable i \<or> backpack (snd (Inventory_remove self item count)) i = 0)"
  by (simp add: Inventory_remove_def)

lemma Inventory_unequip_backpack_inv:
  "\<forall>i. 0 \<le> backpack self i \<and> (hashable i \<or> backpack self i = 0) \<Longrightarrow>
   0 \<le> backpack (snd (Inventory_unequip self slot)) i
   \<and> (hashable i \<or> backpack (snd (Inventory_unequip self slot)) i = 0)"
  by (simp add: Inventory_unequip_def Inventory_add_def split: option.splits)

lemma Inventory_equip_backpack_inv:
  assumes "\<forall>i. 0 \<le> backpack self i \<and> (hashable i \<or> backpack self i = 0)"
  shows "0 \<le> backpack (snd (Inventory_equip self slot item)) i
    \<and> (hashable i \<or> backpack (snd (Inventory_equip self slot item)) i = 0)"
proof -
  have u: "\<forall>j. 0 \<le> backpack (snd (Inventory_unequip self slot)) j
      \<and> (hashable j \<or> backpack (snd (Inventory_unequip self slot)) j = 0)"
    using assms by (simp add: Inventory_unequip_backpack_inv)
  have r: "\<forall>j. 0 \<le> backpack (snd (Inventory_remove self item 1)) j
      \<and> (hashable j \<or> backpack (snd (Inventory_remove self item 1)) j = 0)"
    using assms by (simp add: Inventory_remove_backpack_inv)
  have ur:
    "\<forall>j. 0 \<le> backpack (snd (Inventory_remove (snd (Inventory_unequip self slot)) item 1)) j
      \<and> (hashable j
          \<or> backpack (snd (Inventory_remove (snd (Inventory_unequip self slot)) item 1)) j = 0)"
    using u by (simp add: Inventory_remove_backpack_inv)
  show ?thesis
    using assms u r ur
    by (auto simp add: Inventory_equip_def split: option.splits prod.splits)
qed

lemma Inventory_use_backpack_inv:
  "\<forall>i. 0 \<le> backpack self i \<and> (hashable i \<or> backpack self i = 0) \<Longrightarrow>
   0 \<le> backpack (snd (Inventory_use self item)) i
   \<and> (hashable i \<or> backpack (snd (Inventory_use self item)) i = 0)"
  by (simp add: Inventory_use_def Inventory_remove_backpack_inv)

lemma perform_backpack_inv:
  "\<forall>i. 0 \<le> backpack self i \<and> (hashable i \<or> backpack self i = 0) \<Longrightarrow>
   \<forall>i. 0 \<le> backpack (snd (perform self c)) i
     \<and> (hashable i \<or> backpack (snd (perform self c)) i = 0)"
  by (cases c)
     (simp_all add: Inventory_add_backpack_inv Inventory_remove_backpack_inv
        Inventory_unequip_backpack_inv Inventory_equip_backpack_inv
        Inventory_use_backpack_inv)

lemma foldl_perform_backpack_inv:
  "\<forall>i. 0 \<le> backpack self i \<and> (hashable i \<or> backpack self i = 0) \<Longrightarrow>
   \<forall>i. 0 \<le> backpack (foldl (\<lambda>self c. snd (perform self c)) self calls) i
     \<and> (hashable i \<or> backpack (foldl (\<lambda>self c. snd (perform self c)) self calls) i = 0)"
proof (induction calls arbitrary: self)
  case Nil
  then show ?case by simp
next
  case (Cons c calls)
  have "\<forall>i. 0 \<le> backpack (snd (perform self c)) i
      \<and> (hashable i \<or> backpack (snd (perform self c)) i = 0)"
    using Cons.prems by (rule perform_backpack_inv)
  then show ?case using Cons.IH by simp
qed

lemma after_calls_backpack_inv:
  "0 \<le> backpack (after_calls calls) i \<and> (hashable i \<or> backpack (after_calls calls) i = 0)"
  using foldl_perform_backpack_inv [of Inventory_new calls]
  by (simp add: after_calls_def Inventory_new_def)

text \<open>
  C9. After any sequence of \<^verbatim>\<open>add\<close>, \<^verbatim>\<open>remove\<close>, \<^verbatim>\<open>equip\<close>, \<^verbatim>\<open>unequip\<close> and \<^verbatim>\<open>use\<close>
  calls on \<^verbatim>\<open>Inventory.new()\<close>, whether each call returns or raises, the backpack count
  of every item is at least 0. (The \<^verbatim>\<open>assert count >= 0\<close> of \<^verbatim>\<open>add\<close> and \<^verbatim>\<open>remove\<close> is
  taken as executed, as Python does unless it is run with \<^verbatim>\<open>-O\<close>.)
\<close>

theorem backpack_never_negative: "0 \<le> backpack (after_calls calls) item"
  using foldl_perform_backpack_inv [of Inventory_new calls]
  by (simp add: after_calls_def Inventory_new_def)

subsection \<open>Using an item\<close>

text \<open>
  C10. \<^verbatim>\<open>use(item)\<close> does what \<^verbatim>\<open>remove(item, 1)\<close> does, in the exception raised and in
  the inventory left behind: it raises when the item cannot be hashed or its count is
  below 1, and changes nothing; otherwise it takes one from that count and changes
  nothing else. In an inventory that satisfies the invariant of the backpack at the item
  (the count is not negative, and is 0 if the item cannot be hashed), it raises exactly
  when that count is 0; so it does in every inventory reached from \<^verbatim>\<open>Inventory.new()\<close>
  by calls of the five methods.
\<close>

theorem use_is_remove_one:
  "Inventory_use self item = Inventory_remove self item 1
   \<and> Inventory_use self item =
       (if \<not> hashable item then (Some TypeError, self)
        else if backpack self item < 1 then (Some ValueError, self)
        else (None, self\<lparr>backpack := (backpack self)(item := backpack self item - 1)\<rparr>))
   \<and> (0 \<le> backpack self item \<and> (hashable item \<or> backpack self item = 0) \<longrightarrow>
        (fst (Inventory_use self item) \<noteq> None \<longleftrightarrow> backpack self item = 0))
   \<and> (fst (Inventory_use (after_calls calls) item) \<noteq> None
        \<longleftrightarrow> backpack (after_calls calls) item = 0)"
proof -
  have e: "Inventory_use s item = Inventory_remove s item 1
     \<and> Inventory_use s item =
       (if \<not> hashable item then (Some TypeError, s)
        else if backpack s item < 1 then (Some ValueError, s)
        else (None, s\<lparr>backpack := (backpack s)(item := backpack s item - 1)\<rparr>))" for s
    by (auto simp add: Inventory_use_def Inventory_remove_def)
  have i: "fst (Inventory_use s item) \<noteq> None \<longleftrightarrow> backpack s item = 0"
    if "0 \<le> backpack s item \<and> (hashable item \<or> backpack s item = 0)" for s
    using that by (auto simp add: Inventory_use_def Inventory_remove_def)
  from e [of self] i [of self] i [of "after_calls calls", OF after_calls_backpack_inv]
  show ?thesis by blast
qed

theorem use_is_remove_one_witness:
  "0 \<le> backpack head_item1 item3 \<and> hashable item3
   \<and> fst (Inventory_use head_item1 item3) \<noteq> None \<and> backpack head_item1 item3 = 0"
proof -
  have z: "backpack head_item1 item3 = 0"
    by (simp add: head_item1_eq)
  then have h: "0 \<le> backpack head_item1 item3 \<and> (hashable item3 \<or> backpack head_item1 item3 = 0)"
    by (simp add: items_hashable)
  from use_is_remove_one [of head_item1 item3] h z
  have "fst (Inventory_use head_item1 item3) \<noteq> None"
    by blast
  with h z show ?thesis by (simp add: items_hashable)
qed

section \<open>Properties of Character.hit\<close>

lemma five_halves: "\<lceil>- (5 / 2) :: rat\<rceil> = - 2" "\<lfloor>- (5 / 2) :: rat\<rfloor> = - 3"
  by (simp_all add: ceiling_eq_iff floor_eq_iff)

text \<open>
  \<^verbatim>\<open>hit\<close> returns when the damage is finite and the health, the current sheet and its
  \<^verbatim>\<open>max_health\<close> are set, and only then.
\<close>

lemma Character_hit_returns:
  assumes "damage attack = Finite d" and "health self = Some h" and "current self = Some cur"
    and "max_health cur = Some cap"
  shows "Character_hit self attack =
     Inr (Character_modify self
            (Character_unset
               \<lparr>health :=
                  Some (let h1 = (if h - (if 0 \<le> d then \<lfloor>d\<rfloor> else \<lceil>d\<rceil>) \<le> 0 then 0
                                  else h - (if 0 \<le> d then \<lfloor>d\<rfloor> else \<lceil>d\<rceil>))
                        in if cap < h1 then cap else h1),
                is_alive :=
                  (if h - (if 0 \<le> d then \<lfloor>d\<rfloor> else \<lceil>d\<rceil>) \<le> 0 then Some False
                   else is_alive self)\<rparr>),
          if 0 \<le> d then \<lfloor>d\<rfloor> else \<lceil>d\<rceil>)"
  using assms by (simp add: Character_hit_def Let_def)

lemma Character_hit_Inr_D:
  assumes "Character_hit self attack = Inr (target, dealt)"
  shows "\<exists>d h cur cap. damage attack = Finite d \<and> health self = Some h
     \<and> current self = Some cur \<and> max_health cur = Some cap"
  using assms
  by (cases "damage attack")
     (auto simp add: Character_hit_def Let_def split: option.splits prod.splits if_splits)

lemma wounded_fields:
  "health wounded = Some 10" "is_alive wounded = Some True"
  "current wounded = Some (Stats_unset\<lparr>max_health := Some 20\<rparr>)"
  by (simp_all add: wounded_def Character_new_def Character_modify_def Character_unset_def
      overridden_def)

lemma fallen_fields:
  "health fallen = Some 0" "is_alive fallen = Some False"
  "current fallen = Some (Stats_unset\<lparr>max_health := Some 20\<rparr>)"
  by (simp_all add: fallen_def wounded_def Character_new_def Character_modify_def
      Character_unset_def overridden_def)

subsection \<open>The damage dealt\<close>

text \<open>
  C3, as amended. The damage dealt that \<^verbatim>\<open>hit\<close> returns is the damage rounded toward
  zero: its floor when the damage is not negative, its ceiling when it is negative. The
  first half says so of every call that returns, the second that the call does return
  when the damage is finite and the health and \<^verbatim>\<open>current.max_health\<close> are set.
\<close>

theorem hit_damage_dealt_truncates:
  "(Character_hit self attack = Inr (target, dealt) \<longrightarrow>
      (\<exists>d. damage attack = Finite d \<and> dealt = (if 0 \<le> d then \<lfloor>d\<rfloor> else \<lceil>d\<rceil>)))
   \<and> (damage attack = Finite x \<and> health self = Some h \<and> current self = Some cur
        \<and> max_health cur = Some cap \<longrightarrow>
      (\<exists>target. Character_hit self attack = Inr (target, if 0 \<le> x then \<lfloor>x\<rfloor> else \<lceil>x\<rceil>)))"
proof (intro conjI impI)
  assume r: "Character_hit self attack = Inr (target, dealt)"
  from Character_hit_Inr_D [OF r] obtain d h cur cap where
    w: "damage attack = Finite d" "health self = Some h" "current self = Some cur"
       "max_health cur = Some cap"
    by blast
  from Character_hit_returns [OF w] r
  have "dealt = (if 0 \<le> d then \<lfloor>d\<rfloor> else \<lceil>d\<rceil>)" by simp
  with w show "\<exists>d. damage attack = Finite d \<and> dealt = (if 0 \<le> d then \<lfloor>d\<rfloor> else \<lceil>d\<rceil>)"
    by blast
next
  assume "damage attack = Finite x \<and> health self = Some h \<and> current self = Some cur
        \<and> max_health cur = Some cap"
  then show "\<exists>target. Character_hit self attack
      = Inr (target, if 0 \<le> x then \<lfloor>x\<rfloor> else \<lceil>x\<rceil>)"
    by (simp add: Character_hit_returns)
qed

text \<open>A damage of -2.5 on a character with health 10 of 20: the damage dealt is -2.\<close>

theorem hit_damage_dealt_truncates_witness:
  "Character_hit wounded healing = Inr (wounded\<lparr>health := Some 12\<rparr>, - 2)
   \<and> damage healing = Finite (- 5 / 2)
   \<and> (if (0::rat) \<le> - 5 / 2 then \<lfloor>- 5 / 2 :: rat\<rfloor> else \<lceil>- 5 / 2 :: rat\<rceil>) = - 2"
proof -
  have r: "Character_hit wounded healing = Inr (wounded\<lparr>health := Some 12\<rparr>, - 2)"
    by (simp add: Character_hit_def healing_def wounded_def Character_new_def
        Character_modify_def Character_unset_def overridden_def Stats_unset_def five_halves)
  from hit_damage_dealt_truncates [of wounded healing "wounded\<lparr>health := Some 12\<rparr>" "- 2"] r
  obtain d where d: "damage healing = Finite d" "- 2 = (if 0 \<le> d then \<lfloor>d\<rfloor> else \<lceil>d\<rceil>)"
    by blast
  have "damage healing = Finite (- 5 / 2)" by (simp add: healing_def)
  with d have "d = - 5 / 2" by simp
  with d r show ?thesis by simp
qed

text \<open>
  C3 as stated fails on a negative damage that is not an integer: the character of
  \<^verbatim>\<open>Character._test\<close>, at health 8 of 8, takes a damage of -2.5; \<^verbatim>\<open>hit\<close> returns the
  damage dealt -2, and the floor of -2.5 is -3.
\<close>

theorem hit_floor_counterexample:
  "Character_hit john_halo healing = Inr (john_halo, - 2)
   \<and> damage healing = Finite (- 5 / 2)
   \<and> \<lfloor>- 5 / 2 :: rat\<rfloor> = - 3"
  by (simp add: Character_hit_def healing_def john_halo_def Character_new_def
      Character_modify_def Character_unset_def overridden_def five_halves)

subsection \<open>The resulting health\<close>

text \<open>
  C4, as amended. For a living character with health \<open>h\<close> whose \<^verbatim>\<open>current.max_health\<close>
  is not negative, and an integral damage \<open>d\<close>: \<^verbatim>\<open>hit\<close> returns, the damage dealt is
  \<open>d\<close>, and the snapshot differs from the character in health and \<^verbatim>\<open>is_alive\<close> only;
  if \<open>h - d \<le> 0\<close> the health is 0 and \<^verbatim>\<open>is_alive\<close> is false; if \<open>h - d\<close> exceeds
  \<^verbatim>\<open>current.max_health\<close> the health is \<^verbatim>\<open>current.max_health\<close>; otherwise it is
  \<open>h - d\<close>; in the last two cases the character stays alive.
\<close>

theorem hit_clamps_health:
  assumes "is_alive self = Some True"
    and "health self = Some h"
    and "current self = Some cur"
    and "max_health cur = Some cap"
    and "0 \<le> cap"
    and "damage attack = Finite (of_int d)"
  shows "\<exists>target. Character_hit self attack = Inr (target, d)
     \<and> health target = Some (if h - d \<le> 0 then 0 else if cap < h - d then cap else h - d)
     \<and> is_alive target = Some (\<not> h - d \<le> 0)
     \<and> target = self\<lparr>health := health target, is_alive := is_alive target\<rparr>"
  using assms
  by (simp add: Character_hit_returns Character_modify_def Character_unset_def overridden_def)

text \<open>Health 10 of 20 and a damage of 15: health 0, not alive, damage dealt 15.\<close>

theorem hit_clamps_health_witness:
  "is_alive wounded = Some True \<and> health wounded = Some 10
   \<and> current wounded = Some (Stats_unset\<lparr>max_health := Some 20\<rparr>)
   \<and> max_health (Stats_unset\<lparr>max_health := Some 20\<rparr>) = Some 20 \<and> (0::int) \<le> 20
   \<and> damage (blow 15) = Finite (of_int 15)
   \<and> (\<exists>target. Character_hit wounded (blow 15) = Inr (target, 15)
         \<and> health target = Some 0 \<and> is_alive target = Some False)"
proof -
  have h: "is_alive wounded = Some True" "health wounded = Some 10"
    "current wounded = Some (Stats_unset\<lparr>max_health := Some 20\<rparr>)"
    "max_health (Stats_unset\<lparr>max_health := Some 20\<rparr>) = Some 20" "(0::int) \<le> 20"
    "damage (blow 15) = Finite (of_int 15)"
    by (simp_all add: wounded_fields blow_def)
  from hit_clamps_health [OF h] h show ?thesis
    by auto
qed

text \<open>
  C4 as stated fails when \<^verbatim>\<open>current.max_health\<close> is negative. \<open>cursed\<close> is alive with
  health -5 and \<^verbatim>\<open>max_health\<close> -5; a damage of 0 gives \<open>h - d = -5 \<le> 0\<close>, the first
  \<^verbatim>\<open>if\<close> sets the health to 0, the second finds 0 above the maximum and sets it to -5:
  the snapshot has health -5, not 0.
\<close>

theorem hit_negative_cap_counterexample:
  "is_alive cursed = Some True \<and> health cursed = Some (- 5)
   \<and> current cursed = Some (Stats_unset\<lparr>max_health := Some (- 5)\<rparr>)
   \<and> damage (blow 0) = Finite 0
   \<and> (- 5 :: int) - 0 \<le> 0
   \<and> Character_hit cursed (blow 0)
       = Inr (cursed\<lparr>health := Some (- 5), is_alive := Some False\<rparr>, 0)"
  by (simp add: Character_hit_def blow_def cursed_def Character_new_def Character_modify_def
      Character_unset_def overridden_def Stats_unset_def)

subsection \<open>No revival\<close>

text \<open>
  C5. For a character whose \<^verbatim>\<open>is_alive\<close> is false, the snapshot that \<^verbatim>\<open>hit\<close> returns
  has \<^verbatim>\<open>is_alive\<close> false, whatever the damage; and \<^verbatim>\<open>hit\<close> does return one when the
  damage is finite and the health and \<^verbatim>\<open>current.max_health\<close> are set.
\<close>

theorem hit_never_revives:
  "(is_alive self = Some False \<and> Character_hit self attack = Inr (target, dealt) \<longrightarrow>
      is_alive target = Some False)
   \<and> (is_alive self = Some False \<and> damage attack = Finite x \<and> health self = Some h
        \<and> current self = Some cur \<and> max_health cur = Some cap \<longrightarrow>
      (\<exists>target dealt. Character_hit self attack = Inr (target, dealt)
         \<and> is_alive target = Some False))"
proof (intro conjI impI)
  assume a: "is_alive self = Some False \<and> Character_hit self attack = Inr (target, dealt)"
  then have r: "Character_hit self attack = Inr (target, dealt)" by simp
  from Character_hit_Inr_D [OF r] obtain d h cur cap where
    w: "damage attack = Finite d" "health self = Some h" "current self = Some cur"
       "max_health cur = Some cap"
    by blast
  from Character_hit_returns [OF w] r a show "is_alive target = Some False"
    by (auto simp add: Character_modify_def Character_unset_def overridden_def)
next
  assume a: "is_alive self = Some False \<and> damage attack = Finite x \<and> health self = Some h
        \<and> current self = Some cur \<and> max_health cur = Some cap"
  then have w: "damage attack = Finite x" "health self = Some h" "current self = Some cur"
       "max_health cur = Some cap" by simp_all
  from Character_hit_returns [OF w] a
  show "\<exists>target dealt. Character_hit self attack = Inr (target, dealt)
      \<and> is_alive target = Some False"
    by (simp add: Character_modify_def Character_unset_def overridden_def)
qed

text \<open>A dead character at health 0 of 20 healed by 2.5: health 2, still not alive.\<close>

theorem hit_never_revives_witness:
  "is_alive fallen = Some False
   \<and> Character_hit fallen healing = Inr (fallen\<lparr>health := Some 2\<rparr>, - 2)
   \<and> is_alive (fallen\<lparr>health := Some 2\<rparr>) = Some False"
proof -
  have r: "Character_hit fallen healing = Inr (fallen\<lparr>health := Some 2\<rparr>, - 2)"
    by (simp add: Character_hit_def healing_def fallen_def wounded_def Character_new_def
        Character_modify_def Character_unset_def overridden_def Stats_unset_def five_halves)
  have d: "is_alive fallen = Some False"
    by (simp add: fallen_fields)
  from hit_never_revives [of fallen healing "fallen\<lparr>health := Some 2\<rparr>" "- 2"] r d
  have "is_alive (fallen\<lparr>health := Some 2\<rparr>) = Some False"
    by blast
  with r d show ?thesis by blast
qed

section \<open>Properties of Character.update_stats\<close>

text \<open>
  The body of \<^verbatim>\<open>update_stats\<close>, had it a sheet to enumerate: with no bonus it returns
  the sheet, and a bonus with an unset field makes it raise \<^verbatim>\<open>TypeError\<close>.
\<close>

lemma update_stats_body_no_bonuses: "update_stats_body (Some s) (Some []) = Inr s"
  by (simp add: update_stats_body_def stats_tuple_def enumerate_eq_zip and_then_def
      Stats_star_def positional_def upt_rec)

lemma update_stats_body_unset_bonus:
  "update_stats_body (Some s) (Some ((u, Stats_unset) # rest)) = Inl TypeError"
  by (simp add: update_stats_body_def stats_tuple_def and_then_def Stats_unset_def
      split: option.splits)

lemma Character_update_stats_always_raises:
  "Character_update_stats self = Inl AttributeError"
  by (simp add: Character_update_stats_def Character_stats_attr_def and_then_def)

text \<open>
  C2. The claim: for a character whose base stats are all set, \<^verbatim>\<open>update_stats()\<close>
  returns the base sheet plus the bonuses, and the base sheet itself when there is no
  bonus. The code at such an input: the character of \<^verbatim>\<open>Character._test\<close> has every base
  stat set and no bonus, and \<^verbatim>\<open>update_stats()\<close> raises \<^verbatim>\<open>AttributeError\<close>, because the
  sheet is read as \<^verbatim>\<open>self.BASE\<close> and the field is \<^verbatim>\<open>base\<close>.
\<close>

theorem update_stats_raises:
  "Character_update_stats john_halo = Inl AttributeError
   \<and> base john_halo =
       Some \<lparr>max_health = Some 8, max_stamina = Some 16, max_mana = Some 4,
             strength = Some 8, agility = Some 6, acumen = Some 4, armor = Some 2,
             magical_resistance = Some 4\<rparr>
   \<and> bonuses john_halo = Some []"
  by (simp add: Character_update_stats_def Character_stats_attr_def and_then_def john_halo_def
      Character_new_def)

end
